theory Spec2Isabelle
  imports Complex_Main "HOL-Library.AList"
begin

section \<open>Values, records and exceptions\<close>

text \<open>
  A telemetry record is a Python \<open>dict\<close> from field names to integers, floats or
  strings. A dict keeps its keys in insertion order and an assignment to an existing key
  replaces the value in place, which is what \<open>AList.update\<close> does on an association
  list. A float is kept as the text that \<open>float()\<close> accepted: its numeric value
  (rounding, \<open>inf\<close>, \<open>nan\<close>) is not modelled, and no statement below depends on it.
\<close>

datatype pyfloat = Float_of string

datatype pyval = PyInt int | PyFloat pyfloat | PyStr string

type_synonym pydict = "(string \<times> pyval) list"

text \<open>An exception carries the text that \<open>str(e)\<close> returns.\<close>

datatype pyexc = ValueError string | OverflowError string | Exception string

fun str_exc :: "pyexc \<Rightarrow> string" where
  "str_exc (ValueError m) = m"
| "str_exc (OverflowError m) = m"
| "str_exc (Exception m) = m"

definition has_key :: "string \<Rightarrow> pydict \<Rightarrow> bool" where
  "has_key k d = (map_of d k \<noteq> None)"

section \<open>Python sequences: \<open>range\<close> and slices\<close>

text \<open>
  \<open>range(start, stop, step)\<close>: a zero step raises \<open>ValueError\<close>; otherwise the
  elements are \<open>start + k * step\<close> for \<open>k\<close> below the length CPython computes.
\<close>

definition py_range :: "int \<Rightarrow> int \<Rightarrow> int \<Rightarrow> pyexc + int list" where
  "py_range start stop step =
     (if step = 0 then Inl (ValueError ''range() arg 3 must not be zero'')
      else if 0 < step then
        Inr (map (\<lambda>k. start + int k * step) [0..<nat ((stop - start + step - 1) div step)])
      else
        Inr (map (\<lambda>k. start + int k * step) [0..<nat ((start - stop - step - 1) div (- step))]))"

text \<open>
  \<open>xs[a:b]\<close>: a negative bound counts from the end, and both bounds are clamped to
  \<open>0 .. len(xs)\<close>. A slice is a new list.
\<close>

definition py_bound :: "nat \<Rightarrow> int \<Rightarrow> nat" where
  "py_bound n a = (if a < 0 then nat (max 0 (a + int n)) else min (nat a) n)"

definition py_slice :: "'a list \<Rightarrow> int \<Rightarrow> int \<Rightarrow> 'a list" where
  "py_slice xs a b =
     (let lo = py_bound (length xs) a; hi = py_bound (length xs) b
      in take (hi - lo) (drop lo xs))"

section \<open>The process state\<close>

text \<open>
  Records are objects: the heap maps a reference to the dict it holds, and the pending
  batch is a list of references, so a record that the caller still holds and the entry of
  the batch are the same object. \<open>batch_size\<close>, \<open>max_retries\<close> and
  \<open>pending_batch\<close> are the fields of the one \<open>TelemetryStorage\<close> instance of the
  process; \<open>remote\<close> is the state of the remote store behind the one client.
  \<open>trace\<close> is the log of what the process did: the calls of \<open>flush_batch\<close> and of
  \<open>_write_chunk_with_retry\<close>, every remote call, and every \<open>time.sleep\<close>.
\<close>

type_synonym ref = nat

record query =
  q_columns :: string
  q_order :: "(string \<times> bool) option"
  q_limit :: "int option"
  q_range :: "(int \<times> int) option"

datatype event =
    FlushBatch
  | WriteChunk nat "ref list"
  | Insert "pydict list"
  | Sleep real
  | Select query

text \<open>
  The remote store is any deterministic machine over a state \<open>'r\<close>: a call either raises
  or returns the \<open>data\<close> of its response, and moves the store to a new state.
\<close>

record 'r supabase =
  table_insert :: "'r \<Rightarrow> pydict list \<Rightarrow> (pyexc + pydict list) \<times> 'r"
  table_select :: "'r \<Rightarrow> query \<Rightarrow> (pyexc + pydict list) \<times> 'r"

record 'r state =
  batch_size :: int
  max_retries :: int
  pending_batch :: "ref list"
  heap :: "ref \<Rightarrow> pydict"
  next_ref :: ref
  remote :: 'r
  trace :: "event list"

definition emit :: "event \<Rightarrow> 'r state \<Rightarrow> 'r state" where
  "emit e s = s\<lparr>trace := trace s @ [e]\<rparr>"

text \<open>\<open>TelemetryStorage.__init__\<close>, in a process that has allocated no record yet.\<close>

definition init_state :: "int \<Rightarrow> int \<Rightarrow> 'r \<Rightarrow> 'r state" where
  "init_state bs mr r =
     \<lparr>batch_size = bs, max_retries = mr, pending_batch = [], heap = (\<lambda>_. []),
      next_ref = 0, remote = r, trace = []\<rparr>"

section \<open>\<open>TelemetryStorage\<close>\<close>

text \<open>
  \<open>_write_chunk_with_retry\<close>, the body of \<open>for attempt in range(self.max_retries)\<close>
  as a recursion over the attempts still to make. The insert sends the dicts the chunk's
  references hold. A response with data returns \<open>True\<close>; a response without data goes
  on to the next attempt at once. An exception computes
  \<open>wait_time = (2 ** attempt) * 0.5\<close>, where the conversion of \<open>2 ** attempt\<close> to a
  float raises \<open>OverflowError\<close> from \<open>attempt = 1024\<close> on (inside the handler, so it
  leaves the function), and sleeps unless the attempt is the last one.
\<close>

fun retry_attempts ::
  "'r supabase \<Rightarrow> ref list \<Rightarrow> nat \<Rightarrow> nat list \<Rightarrow> 'r state \<Rightarrow> (pyexc + bool) \<times> 'r state" where
  "retry_attempts db chunk chunk_idx [] s = (Inr False, s)"
| "retry_attempts db chunk chunk_idx (attempt # rest) s =
     (case table_insert db (remote s) (map (heap s) chunk) of
        (outcome, r') \<Rightarrow>
          let s1 = emit (Insert (map (heap s) chunk)) (s\<lparr>remote := r'\<rparr>) in
          (case outcome of
             Inr data \<Rightarrow>
               if data \<noteq> [] then (Inr True, s1)
               else retry_attempts db chunk chunk_idx rest s1
           | Inl e \<Rightarrow>
               if 1024 \<le> attempt
               then (Inl (OverflowError ''int too large to convert to float''), s1)
               else if int attempt < max_retries s1 - 1
               then retry_attempts db chunk chunk_idx rest (emit (Sleep (2 ^ attempt * 0.5)) s1)
               else retry_attempts db chunk chunk_idx rest s1))"

definition write_chunk_with_retry ::
  "'r supabase \<Rightarrow> ref list \<Rightarrow> nat \<Rightarrow> 'r state \<Rightarrow> (pyexc + bool) \<times> 'r state" where
  "write_chunk_with_retry db chunk chunk_idx s =
     retry_attempts db chunk chunk_idx [0..<nat (max_retries s)] (emit (WriteChunk chunk_idx chunk) s)"

text \<open>
  \<open>_write_telemetry_batch\<close>. \<open>chunks_of\<close> is the list comprehension
  \<open>[data[i:i + self.batch_size] for i in range(0, len(data), self.batch_size)]\<close>;
  \<open>write_chunks\<close> is the loop over \<open>enumerate(chunks)\<close>, which returns at the first
  chunk that is not written.
\<close>

definition chunks_of :: "int \<Rightarrow> 'a list \<Rightarrow> pyexc + 'a list list" where
  "chunks_of bs data =
     (case py_range 0 (int (length data)) bs of
        Inl e \<Rightarrow> Inl e
      | Inr starts \<Rightarrow> Inr (map (\<lambda>i. py_slice data i (i + bs)) starts))"

fun write_chunks ::
  "'r supabase \<Rightarrow> (nat \<times> ref list) list \<Rightarrow> 'r state \<Rightarrow> (pyexc + bool) \<times> 'r state" where
  "write_chunks db [] s = (Inr True, s)"
| "write_chunks db ((chunk_idx, chunk) # rest) s =
     (case write_chunk_with_retry db chunk chunk_idx s of
        (Inl e, s1) \<Rightarrow> (Inl e, s1)
      | (Inr success, s1) \<Rightarrow>
          if \<not> success then (Inr False, s1) else write_chunks db rest s1)"

definition write_telemetry_batch ::
  "'r supabase \<Rightarrow> ref list \<Rightarrow> 'r state \<Rightarrow> (pyexc + bool) \<times> 'r state" where
  "write_telemetry_batch db data s =
     (if data = [] then (Inr True, s)
      else (case chunks_of (batch_size s) data of
              Inl e \<Rightarrow> (Inl e, s)
            | Inr chunks \<Rightarrow> write_chunks db (enumerate 0 chunks) s))"

text \<open>
  \<open>flush_batch\<close>: an empty batch returns \<open>True\<close> at once; otherwise the batch is
  written, cleared when the write succeeded, and an exception of the write is caught and
  reported as \<open>False\<close>.
\<close>

definition flush_batch :: "'r supabase \<Rightarrow> 'r state \<Rightarrow> bool \<times> 'r state" where
  "flush_batch db s0 =
     (let s = emit FlushBatch s0 in
      if pending_batch s = [] then (True, s)
      else (case write_telemetry_batch db (pending_batch s) s of
              (Inr success, s1) \<Rightarrow>
                if success then (True, s1\<lparr>pending_batch := []\<rparr>) else (False, s1)
            | (Inl e, s1) \<Rightarrow> (False, s1)))"

text \<open>
  \<open>add_telemetry_data\<close>: \<open>telemetry_data\<close> is the reference the caller passes and
  \<open>now\<close> is what \<open>datetime.utcnow().isoformat()\<close> returns during the call.
  \<open>stamp_and_append\<close> is the first two statements of the \<open>try\<close> block: the
  assignment to \<open>telemetry_data['created_at']\<close> writes into the caller's dict, and the
  batch receives the reference. No statement of the block can raise (\<open>flush_batch\<close>
  catches its own exceptions), so the handler has no branch here.
\<close>

definition stamp_and_append :: "ref \<Rightarrow> string \<Rightarrow> 'r state \<Rightarrow> 'r state" where
  "stamp_and_append telemetry_data now s =
     (let s1 = (if \<not> has_key ''created_at'' (heap s telemetry_data)
                then s\<lparr>heap := (heap s)(telemetry_data :=
                        AList.update ''created_at'' (PyStr now) (heap s telemetry_data))\<rparr>
                else s)
      in s1\<lparr>pending_batch := pending_batch s1 @ [telemetry_data]\<rparr>)"

definition add_telemetry_data ::
  "'r supabase \<Rightarrow> ref \<Rightarrow> string \<Rightarrow> 'r state \<Rightarrow> bool \<times> 'r state" where
  "add_telemetry_data db telemetry_data now s =
     (let s2 = stamp_and_append telemetry_data now s
      in if batch_size s2 \<le> int (length (pending_batch s2)) then flush_batch db s2
         else (True, s2))"

text \<open>
  \<open>SupabaseClient.health_check\<close> and \<open>get_batch_status\<close>: the status is computed
  from the batch on each call, and the probe of the store is a remote call of its own.
\<close>

definition health_check :: "'r supabase \<Rightarrow> 'r state \<Rightarrow> bool \<times> 'r state" where
  "health_check db s =
     (let q = \<lparr>q_columns = ''count'', q_order = None, q_limit = Some 1, q_range = None\<rparr> in
      case table_select db (remote s) q of
        (Inr response, r') \<Rightarrow> (True, emit (Select q) (s\<lparr>remote := r'\<rparr>))
      | (Inl e, r') \<Rightarrow> (False, emit (Select q) (s\<lparr>remote := r'\<rparr>)))"

record batch_status =
  pending_records :: nat
  status_batch_size :: int
  batch_full :: bool
  supabase_healthy :: bool

definition get_batch_status :: "'r supabase \<Rightarrow> 'r state \<Rightarrow> batch_status \<times> 'r state" where
  "get_batch_status db s =
     (case health_check db s of
        (healthy, s1) \<Rightarrow>
          (\<lparr>pending_records = length (pending_batch s),
            status_batch_size = batch_size s,
            batch_full = (batch_size s \<le> int (length (pending_batch s))),
            supabase_healthy = healthy\<rparr>, s1))"

section \<open>Reading the trace, and callers\<close>

text \<open>
  \<open>chunk_calls\<close> lists the calls of \<open>_write_chunk_with_retry\<close> in a trace, with the
  index and the chunk each was given; \<open>flush_calls\<close> counts the calls of
  \<open>flush_batch\<close>; \<open>is_io\<close> holds of the remote inserts and the sleeps.
\<close>

fun chunk_calls :: "event list \<Rightarrow> (nat \<times> ref list) list" where
  "chunk_calls [] = []"
| "chunk_calls (WriteChunk i c # es) = (i, c) # chunk_calls es"
| "chunk_calls (e # es) = chunk_calls es"

fun flush_calls :: "event list \<Rightarrow> nat" where
  "flush_calls [] = 0"
| "flush_calls (FlushBatch # es) = Suc (flush_calls es)"
| "flush_calls (e # es) = flush_calls es"

fun is_io :: "event \<Rightarrow> bool" where
  "is_io (Insert rows) = True"
| "is_io (Sleep t) = True"
| "is_io e = False"

fun insert_count :: "event list \<Rightarrow> nat" where
  "insert_count [] = 0"
| "insert_count (Insert rows # es) = Suc (insert_count es)"
| "insert_count (e # es) = insert_count es"

fun sleeps :: "event list \<Rightarrow> real list" where
  "sleeps [] = []"
| "sleeps (Sleep t # es) = t # sleeps es"
| "sleeps (e # es) = sleeps es"

text \<open>
  A store \<open>never_confirms\<close> when no insert returns data, and \<open>always_raises\<close> when
  every insert raises.
\<close>

definition never_confirms :: "'r supabase \<Rightarrow> bool" where
  "never_confirms db =
     (\<forall>r rows. case fst (table_insert db r rows) of Inr data \<Rightarrow> data = [] | Inl e \<Rightarrow> True)"

definition always_raises :: "'r supabase \<Rightarrow> bool" where
  "always_raises db = (\<forall>r rows. \<exists>e. fst (table_insert db r rows) = Inl e)"

text \<open>
  A caller that adds one record after the other, each with the time of its own call, and
  collects what \<open>add_telemetry_data\<close> returned.
\<close>

fun add_all :: "'r supabase \<Rightarrow> (ref \<times> string) list \<Rightarrow> 'r state \<Rightarrow> bool list \<times> 'r state" where
  "add_all db [] s = ([], s)"
| "add_all db ((telemetry_data, now) # rest) s =
     (case add_telemetry_data db telemetry_data now s of
        (ok, s1) \<Rightarrow> (case add_all db rest s1 of (oks, s2) \<Rightarrow> (ok # oks, s2)))"

section \<open>Python strings\<close>

text \<open>
  Text is modelled over the code points below 256 (Latin-1), one \<open>char\<close> each.
  \<open>py_isspace\<close> is \<open>str.isspace\<close> on one character, \<open>py_strip\<close> is \<open>str.strip()\<close>,
  \<open>py_lower\<close> is \<open>str.lower()\<close>, \<open>py_split sep\<close> is \<open>str.split(sep)\<close> and
  \<open>py_split1 sep\<close> is \<open>str.split(sep, 1)\<close>, for a separator of one character.
\<close>

definition py_isspace :: "char \<Rightarrow> bool" where
  "py_isspace c =
     (c \<in> {CHR 0x09, CHR 0x0A, CHR 0x0B, CHR 0x0C, CHR 0x0D, CHR 0x1C, CHR 0x1D, CHR 0x1E,
            CHR 0x1F, CHR 0x20, CHR 0x85, CHR 0xA0})"

definition py_strip :: "string \<Rightarrow> string" where
  "py_strip s = rev (dropWhile py_isspace (rev (dropWhile py_isspace s)))"

definition lower_char :: "char \<Rightarrow> char" where
  "lower_char c =
     (let n = (of_char c :: nat)
      in if (65 \<le> n \<and> n \<le> 90) \<or> (192 \<le> n \<and> n \<le> 222 \<and> n \<noteq> 215)
         then char_of (n + 32) else c)"

definition py_lower :: "string \<Rightarrow> string" where
  "py_lower s = map lower_char s"

fun py_split :: "char \<Rightarrow> string \<Rightarrow> string list" where
  "py_split sep [] = [[]]"
| "py_split sep (c # cs) =
     (if c = sep then [] # py_split sep cs
      else (case py_split sep cs of
              w # ws \<Rightarrow> (c # w) # ws
            | [] \<Rightarrow> [[c]]))"

definition py_split1 :: "char \<Rightarrow> string \<Rightarrow> string list" where
  "py_split1 sep s =
     (if sep \<in> set s
      then [takeWhile (\<lambda>c. c \<noteq> sep) s, tl (dropWhile (\<lambda>c. c \<noteq> sep) s)]
      else [s])"

section \<open>The conversions \<open>int()\<close> and \<open>float()\<close>\<close>

text \<open>
  The parser calls the builtins \<open>int\<close> and \<open>float\<close> on a string. The functions below
  take them as a parameter, so that what is proved holds whatever the two conversions
  accept and whatever they raise.
\<close>

record builtins =
  int_of_str :: "string \<Rightarrow> pyexc + int"
  float_of_str :: "string \<Rightarrow> pyexc + pyfloat"

text \<open>
  \<open>python\<close> is the instance used on concrete inputs: the literals that CPython accepts
  in Latin-1 text. A group of digits is decimal digits with single underscores between
  them; an integer is an optional sign and a group; a float is an optional sign and
  \<open>inf\<close>, \<open>infinity\<close>, \<open>nan\<close> in any case, or a mantissa with at most one point and an
  optional exponent. Both strip surrounding whitespace. The text of a message stops
  before the literal, and CPython's limit on the number of digits of an integer literal is
  left out.
\<close>

definition is_digit :: "char \<Rightarrow> bool" where
  "is_digit c = (48 \<le> (of_char c :: nat) \<and> (of_char c :: nat) \<le> 57)"

definition digit_groups :: "string \<Rightarrow> string option" where
  "digit_groups s =
     (let groups = py_split (CHR ''_'') s
      in if list_all (\<lambda>g. g \<noteq> [] \<and> list_all is_digit g) groups
         then Some (concat groups) else None)"

definition decimal :: "string \<Rightarrow> nat" where
  "decimal ds = foldl (\<lambda>n c. 10 * n + (of_char c - 48)) 0 ds"

definition unsigned :: "string \<Rightarrow> string" where
  "unsigned s =
     (case s of
        c # r \<Rightarrow> if c = CHR ''+'' \<or> c = CHR ''-'' then r else s
      | [] \<Rightarrow> s)"

definition py_int :: "string \<Rightarrow> pyexc + int" where
  "py_int s =
     (let t = py_strip s
      in case digit_groups (unsigned t) of
           Some ds \<Rightarrow>
             Inr (if take 1 t = ''-'' then - int (decimal ds) else int (decimal ds))
         | None \<Rightarrow> Inl (ValueError ''invalid literal for int() with base 10''))"

definition is_exp_mark :: "char \<Rightarrow> bool" where
  "is_exp_mark c = (c = CHR ''e'' \<or> c = CHR ''E'')"

definition mantissa_ok :: "string \<Rightarrow> bool" where
  "mantissa_ok m =
     (if CHR ''.'' \<in> set m
      then (let ip = takeWhile (\<lambda>c. c \<noteq> CHR ''.'') m;
                fp = tl (dropWhile (\<lambda>c. c \<noteq> CHR ''.'') m)
            in (ip = [] \<or> digit_groups ip \<noteq> None) \<and> (fp = [] \<or> digit_groups fp \<noteq> None)
               \<and> \<not> (ip = [] \<and> fp = []))
      else digit_groups m \<noteq> None)"

definition exponent_ok :: "string \<Rightarrow> bool" where
  "exponent_ok x = (x = [] \<or> digit_groups (unsigned (tl x)) \<noteq> None)"

definition py_float :: "string \<Rightarrow> pyexc + pyfloat" where
  "py_float s =
     (let t = py_strip s; body = unsigned t
      in if py_lower body \<in> {''inf'', ''infinity'', ''nan''}
            \<or> (mantissa_ok (takeWhile (\<lambda>c. \<not> is_exp_mark c) body)
                \<and> exponent_ok (dropWhile (\<lambda>c. \<not> is_exp_mark c) body))
         then Inr (Float_of t)
         else Inl (ValueError ''could not convert string to float''))"

definition python :: builtins where
  "python = \<lparr>int_of_str = py_int, float_of_str = py_float\<rparr>"

section \<open>\<open>SimpleTelemetryParser\<close>\<close>

text \<open>
  \<open>_convert_value\<close>: a value without a point goes to \<open>int\<close>, a value with a point goes
  to \<open>float\<close>; a \<open>ValueError\<close> of the conversion is caught and the value is returned as
  it is, any other exception leaves the function.
\<close>

definition convert_value :: "builtins \<Rightarrow> string \<Rightarrow> pyexc + pyval" where
  "convert_value py value =
     (case (if CHR ''.'' \<notin> set value
            then (case int_of_str py value of Inl e \<Rightarrow> Inl e | Inr n \<Rightarrow> Inr (PyInt n))
            else (case float_of_str py value of Inl e \<Rightarrow> Inl e | Inr x \<Rightarrow> Inr (PyFloat x))) of
        Inl (ValueError m) \<Rightarrow> Inr (PyStr value)
      | Inl e \<Rightarrow> Inl e
      | Inr v \<Rightarrow> Inr v)"

text \<open>
  \<open>parse_pair\<close> is \<open>key, value = pair.split(':', 1)\<close> followed by the assignment
  \<open>parsed_data[key.strip().lower()] = self._convert_value(value.strip())\<close>, and
  \<open>parse_pairs\<close> is the loop over the pairs, which skips a pair without a colon.
\<close>

definition parse_pair :: "builtins \<Rightarrow> string \<Rightarrow> pydict \<Rightarrow> pyexc + pydict" where
  "parse_pair py pair parsed_data =
     (case py_split1 (CHR '':'') pair of
        [key, value] \<Rightarrow>
          (case convert_value py (py_strip value) of
             Inl e \<Rightarrow> Inl e
           | Inr v \<Rightarrow> Inr (AList.update (py_lower (py_strip key)) v parsed_data))
      | _ \<Rightarrow> Inl (ValueError ''not enough values to unpack (expected 2, got 1)''))"

fun parse_pairs :: "builtins \<Rightarrow> string list \<Rightarrow> pydict \<Rightarrow> pyexc + pydict" where
  "parse_pairs py [] parsed_data = Inr parsed_data"
| "parse_pairs py (pair # pairs) parsed_data =
     (if CHR '':'' \<in> set pair
      then (case parse_pair py pair parsed_data of
              Inl e \<Rightarrow> Inl e
            | Inr parsed_data' \<Rightarrow> parse_pairs py pairs parsed_data')
      else parse_pairs py pairs parsed_data)"

text \<open>
  \<open>parse_telemetry_line\<close>: \<open>parse_body\<close> is the \<open>try\<close> block, which ends with the three
  metadata assignments, and \<open>parse_telemetry_line\<close> adds the handler, which returns the
  dict of the metadata and the text of the exception.
\<close>

definition parse_body :: "builtins \<Rightarrow> string \<Rightarrow> pyexc + pydict" where
  "parse_body py raw_data =
     (case (if CHR '','' \<in> set raw_data
            then parse_pairs py (py_split (CHR '','') (py_strip raw_data)) []
            else if CHR '':'' \<in> set raw_data then parse_pair py raw_data []
            else Inr []) of
        Inl e \<Rightarrow> Inl e
      | Inr parsed_data \<Rightarrow>
          Inr (AList.update ''data_source'' (PyStr ''flask_api'')
                (AList.update ''parser_version'' (PyStr ''1.0'')
                  (AList.update ''raw_data'' (PyStr raw_data) parsed_data))))"

definition parse_telemetry_line :: "builtins \<Rightarrow> string \<Rightarrow> pydict" where
  "parse_telemetry_line py raw_data =
     (case parse_body py raw_data of
        Inr parsed_data \<Rightarrow> parsed_data
      | Inl e \<Rightarrow>
          [(''raw_data'', PyStr raw_data), (''parser_version'', PyStr ''1.0''),
           (''data_source'', PyStr ''flask_api''), (''parse_error'', PyStr (str_exc e))])"

section \<open>The Flask routes\<close>

text \<open>
  A request is its body as text and its query parameters; \<open>args_get\<close> is
  \<open>request.args.get(key, default)\<close> for a default that is a string. A response is a
  status and a JSON body; \<open>jsonify\<close> reads the dicts the response refers to when the
  route returns, so a body holds what the heap holds at that moment.
\<close>

record request =
  body :: string
  args :: "(string \<times> string) list"

definition args_get :: "(string \<times> string) list \<Rightarrow> string \<Rightarrow> string \<Rightarrow> string" where
  "args_get as key dflt = (case map_of as key of Some v \<Rightarrow> v | None \<Rightarrow> dflt)"

datatype json =
    Failure string "string option"
  | Parsed pydict string "(bool \<times> batch_status) option"
  | Rows "pydict list" nat int int string



text \<open>
  \<open>query_telemetry\<close>, the route of the Query operation. \<open>int_arg\<close> is
  \<open>int(request.args.get(key, default))\<close> for a default that is an integer. Every
  exception of the \<open>try\<close> block, of a conversion or of the remote call, reaches the one
  handler, which answers 500.
\<close>

definition int_arg :: "builtins \<Rightarrow> (string \<times> string) list \<Rightarrow> string \<Rightarrow> int \<Rightarrow> pyexc + int" where
  "int_arg py as key dflt =
     (case map_of as key of Some v \<Rightarrow> int_of_str py v | None \<Rightarrow> Inr dflt)"

definition query_failed :: "pyexc \<Rightarrow> string \<Rightarrow> nat \<times> json" where
  "query_failed e timestamp =
     (500, Failure (''Failed to query telemetry: '' @ str_exc e) (Some timestamp))"

definition query_telemetry ::
  "builtins \<Rightarrow> 'r supabase \<Rightarrow> request \<Rightarrow> string \<Rightarrow> 'r state \<Rightarrow> nat \<times> json \<times> 'r state" where
  "query_telemetry py db req timestamp s =
     (case int_arg py (args req) ''limit'' 100 of
        Inl e \<Rightarrow> (fst (query_failed e timestamp), snd (query_failed e timestamp), s)
      | Inr limit \<Rightarrow>
          (case int_arg py (args req) ''offset'' 0 of
             Inl e \<Rightarrow> (fst (query_failed e timestamp), snd (query_failed e timestamp), s)
           | Inr offset \<Rightarrow>
               let order_by = args_get (args req) ''order_by'' ''created_at'';
                   order_desc = (py_lower (args_get (args req) ''desc'' ''true'') = ''true'');
                   q = \<lparr>q_columns = ''*'', q_order = Some (order_by, order_desc),
                        q_limit = None, q_range = Some (offset, offset + limit - 1)\<rparr>
               in (case table_select db (remote s) q of
                     (Inl e, r') \<Rightarrow>
                       (fst (query_failed e timestamp), snd (query_failed e timestamp),
                        emit (Select q) (s\<lparr>remote := r'\<rparr>))
                   | (Inr data, r') \<Rightarrow>
                       (200, Rows data (length data) limit offset timestamp,
                        emit (Select q) (s\<lparr>remote := r'\<rparr>)))))"

text \<open>The remote queries in a trace.\<close>

fun selects :: "event list \<Rightarrow> query list" where
  "selects [] = []"
| "selects (Select q # es) = q # selects es"
| "selects (e # es) = selects es"

text \<open>
  \<open>raising\<close> is a pair of conversions that fail with an exception other than
  \<open>ValueError\<close>, as an interpreter out of memory would.
\<close>

definition raising :: builtins where
  "raising = \<lparr>int_of_str = (\<lambda>s. Inl (Exception ''out of memory'')),
              float_of_str = (\<lambda>s. Inl (Exception ''out of memory''))\<rparr>"

section \<open>Stores and states used as concrete inputs\<close>

text \<open>
  \<open>failing_db\<close> raises on every call, \<open>silent_db\<close> answers every call with a
  response that holds no data, and \<open>accepting_db\<close> keeps the rows it is sent and
  returns them as the data of its response.
\<close>

definition failing_db :: "unit supabase" where
  "failing_db =
     \<lparr>table_insert = (\<lambda>r rows. (Inl (Exception ''connection refused''), r)),
      table_select = (\<lambda>r q. (Inl (Exception ''connection refused''), r))\<rparr>"

definition silent_db :: "unit supabase" where
  "silent_db =
     \<lparr>table_insert = (\<lambda>r rows. (Inr [], r)),
      table_select = (\<lambda>r q. (Inr [], r))\<rparr>"

definition accepting_db :: "pydict list supabase" where
  "accepting_db =
     \<lparr>table_insert = (\<lambda>r rows. (Inr rows, r @ rows)),
      table_select = (\<lambda>r q. (Inr r, r))\<rparr>"

text \<open>
  \<open>flaky_db\<close> accepts as many inserts as its budget says and raises from then on; its
  state is the budget left and the rows it holds.
\<close>

definition flaky_db :: "(nat \<times> pydict list) supabase" where
  "flaky_db =
     \<lparr>table_insert = (\<lambda>(budget, held) rows.
        if 0 < budget then (Inr rows, (budget - 1, held @ rows))
        else (Inl (Exception ''connection reset''), (budget, held))),
      table_select = (\<lambda>(budget, held) q. (Inr held, (budget, held)))\<rparr>"

text \<open>
  \<open>pending_state bs mr r ds\<close>: the dicts \<open>ds\<close> have been allocated at the references
  \<open>0, 1, ...\<close> and all of them are pending, in that order.
\<close>

definition pending_state :: "int \<Rightarrow> int \<Rightarrow> 'r \<Rightarrow> pydict list \<Rightarrow> 'r state" where
  "pending_state bs mr r ds =
     \<lparr>batch_size = bs, max_retries = mr, pending_batch = [0..<length ds],
      heap = (\<lambda>a. if a < length ds then ds ! a else []),
      next_ref = length ds, remote = r, trace = []\<rparr>"

definition alt_record :: "int \<Rightarrow> pydict" where
  "alt_record n = [(''alt'', PyInt n), (''raw_data'', PyStr ''alt''),
                   (''parser_version'', PyStr ''1.0''), (''data_source'', PyStr ''flask_api'')]"



definition one_pending :: "unit state" where
  "one_pending = pending_state 500 3 () [alt_record 1]"



definition three_pending :: "(nat \<times> pydict list) state" where
  "three_pending = pending_state 1 2 (1, []) (map alt_record [1, 2, 3])"

section \<open>What a write leaves alone\<close>

text \<open>
  \<open>frame s s'\<close>: the configuration, the pending batch, the heap and the allocation
  pointer of \<open>s'\<close> are those of \<open>s\<close>; only the remote store and the trace may differ.
\<close>

definition frame :: "'r state \<Rightarrow> 'r state \<Rightarrow> bool" where
  "frame s s' =
     (batch_size s' = batch_size s \<and> max_retries s' = max_retries s \<and>
      pending_batch s' = pending_batch s \<and> heap s' = heap s \<and> next_ref s' = next_ref s)"

lemma emit_simps [simp]:
  "batch_size (emit e s) = batch_size s"
  "max_retries (emit e s) = max_retries s"
  "pending_batch (emit e s) = pending_batch s"
  "heap (emit e s) = heap s"
  "next_ref (emit e s) = next_ref s"
  "remote (emit e s) = remote s"
  "trace (emit e s) = trace s @ [e]"
  by (simp_all add: emit_def)

lemma frame_refl [simp]: "frame s s"
  by (simp add: frame_def)

lemma frame_emit [simp]: "frame s (emit e s1) = frame s s1"
  by (simp add: frame_def)

lemma frame_remote [simp]: "frame s (s1\<lparr>remote := r\<rparr>) = frame s s1"
  by (simp add: frame_def)

lemma retry_attempts_frame:
  "frame s0 s \<Longrightarrow> frame s0 (snd (retry_attempts db chunk i as s))"
  by (induction as arbitrary: s) (auto simp: Let_def split: prod.splits sum.splits)

lemma write_chunk_frame:
  "frame s0 s \<Longrightarrow> frame s0 (snd (write_chunk_with_retry db chunk i s))"
  by (simp add: write_chunk_with_retry_def retry_attempts_frame)

lemma write_chunks_frame:
  "frame s0 s \<Longrightarrow> frame s0 (snd (write_chunks db cs s))"
proof (induction cs arbitrary: s)
  case Nil
  then show ?case by simp
next
  case (Cons c cs)
  obtain i chunk where c: "c = (i, chunk)"
    by (cases c)
  obtain res s1 where w: "write_chunk_with_retry db chunk i s = (res, s1)"
    by (cases "write_chunk_with_retry db chunk i s")
  have "frame s0 s1"
    using write_chunk_frame [OF Cons.prems, of db chunk i] w by simp
  then show ?case
    using Cons.IH [of s1] c w by (auto split: sum.splits)
qed

lemma write_batch_frame:
  "frame s0 s \<Longrightarrow> frame s0 (snd (write_telemetry_batch db data s))"
  by (auto simp: write_telemetry_batch_def write_chunks_frame split: sum.splits)

lemma flush_batch_frame_failed:
  assumes "\<not> fst (flush_batch db s)"
  shows "frame s (snd (flush_batch db s))"
proof -
  have "frame (emit FlushBatch s)
          (snd (write_telemetry_batch db (pending_batch s) (emit FlushBatch s)))"
    by (rule write_batch_frame) simp
  with assms show ?thesis
    by (auto simp: flush_batch_def Let_def frame_def split: if_splits prod.splits sum.splits)
qed

lemma pending_records_status [simp]:
  "pending_records (fst (get_batch_status db s)) = length (pending_batch s)"
  by (simp add: get_batch_status_def split: prod.splits)

section \<open>Flushing\<close>

text \<open>
  Claim C2. Whenever \<open>flush_batch\<close> returns \<open>False\<close>, the pending batch after the
  call is the pending batch before it, reference by reference and in the same order, the
  records the references hold are unchanged, and \<open>get_batch_status\<close> reports the same
  number of pending records as before the call.
\<close>

theorem flush_failure_keeps_batch:
  assumes "\<not> fst (flush_batch db s)"
  shows "pending_batch (snd (flush_batch db s)) = pending_batch s
       \<and> heap (snd (flush_batch db s)) = heap s
       \<and> pending_records (fst (get_batch_status db (snd (flush_batch db s))))
           = pending_records (fst (get_batch_status db s))"
  using flush_batch_frame_failed [OF assms] by (simp add: frame_def)

theorem flush_failure_keeps_batch_witness:
  "\<not> fst (flush_batch failing_db (pending_state 5 2 () [alt_record 1, alt_record 2]))
   \<and> pending_batch (snd (flush_batch failing_db (pending_state 5 2 () [alt_record 1, alt_record 2])))
       = [0, 1]
   \<and> pending_records (fst (get_batch_status failing_db
         (snd (flush_batch failing_db (pending_state 5 2 () [alt_record 1, alt_record 2]))))) = 2"
proof -
  have failed: "\<not> fst (flush_batch failing_db (pending_state 5 2 () [alt_record 1, alt_record 2]))"
    by code_simp
  have before: "pending_batch (pending_state 5 2 () [alt_record 1, alt_record 2]) = [0, 1]"
    by code_simp
  show ?thesis
    using failed before flush_failure_keeps_batch [OF failed] by simp
qed

text \<open>
  Claim C6. \<open>flush_batch\<close> on an empty pending batch returns \<open>True\<close> and leaves the
  state as it was but for the mark of the call in the trace: the remote store is not called
  and keeps its state. And whenever \<open>flush_batch\<close> returns \<open>True\<close>, the pending batch
  is empty afterwards, so \<open>get_batch_status\<close> reports no pending record.
\<close>

theorem flush_empty_noop_and_success_clears:
  "(pending_batch s = [] \<longrightarrow>
      flush_batch db s = (True, s\<lparr>trace := trace s @ [FlushBatch]\<rparr>))
   \<and> (fst (flush_batch db s) \<longrightarrow>
        pending_batch (snd (flush_batch db s)) = []
        \<and> pending_records (fst (get_batch_status db (snd (flush_batch db s)))) = 0)"
  by (auto simp: flush_batch_def Let_def emit_def split: if_splits prod.splits sum.splits)

theorem flush_empty_noop_and_success_clears_witness:
  "pending_batch (init_state 5 2 []) = []
   \<and> flush_batch accepting_db (init_state 5 2 [])
       = (True, (init_state 5 2 [])\<lparr>trace := [FlushBatch]\<rparr>)
   \<and> fst (flush_batch accepting_db (pending_state 5 2 [] [alt_record 1, alt_record 2]))
   \<and> pending_batch (snd (flush_batch accepting_db
         (pending_state 5 2 [] [alt_record 1, alt_record 2]))) = []"
proof -
  have empty: "pending_batch (init_state 5 2 ([] :: pydict list)) = []"
    by (simp add: init_state_def)
  have ok: "fst (flush_batch accepting_db (pending_state 5 2 [] [alt_record 1, alt_record 2]))"
    by code_simp
  show ?thesis
    using empty ok
      flush_empty_noop_and_success_clears [of "init_state 5 2 []" accepting_db]
      flush_empty_noop_and_success_clears
        [of "pending_state 5 2 [] [alt_record 1, alt_record 2]" accepting_db]
    by (simp add: init_state_def)
qed

section \<open>What a write adds to the trace\<close>

lemma chunk_calls_append [simp]: "chunk_calls (es @ fs) = chunk_calls es @ chunk_calls fs"
  by (induction es rule: chunk_calls.induct) auto

lemma flush_calls_append [simp]: "flush_calls (es @ fs) = flush_calls es + flush_calls fs"
  by (induction es rule: flush_calls.induct) auto

lemma io_chunk_calls: "list_all is_io es \<Longrightarrow> chunk_calls es = []"
  by (induction es rule: chunk_calls.induct) auto

lemma io_flush_calls: "list_all is_io es \<Longrightarrow> flush_calls es = 0"
  by (induction es rule: flush_calls.induct) auto

lemma retry_attempts_trace:
  "\<exists>es. trace (snd (retry_attempts db chunk i as s)) = trace s @ es \<and> list_all is_io es"
proof (induction as arbitrary: s)
  case Nil
  show ?case by simp
next
  case (Cons a as)
  obtain outcome r' where ins: "table_insert db (remote s) (map (heap s) chunk) = (outcome, r')"
    by (cases "table_insert db (remote s) (map (heap s) chunk)")
  let ?s1 = "emit (Insert (map (heap s) chunk)) (s\<lparr>remote := r'\<rparr>)"
  from Cons.IH [of ?s1] obtain es1
    where e1: "trace (snd (retry_attempts db chunk i as ?s1)) = trace ?s1 @ es1"
      "list_all is_io es1"
    by blast
  from Cons.IH [of "emit (Sleep (2 ^ a * 0.5)) ?s1"] obtain es2
    where e2: "trace (snd (retry_attempts db chunk i as (emit (Sleep (2 ^ a * 0.5)) ?s1)))
               = trace (emit (Sleep (2 ^ a * 0.5)) ?s1) @ es2" "list_all is_io es2"
    by blast
  show ?case
    using ins e1 e2 by (auto simp: Let_def split: sum.splits)
qed

lemma write_chunk_trace:
  "\<exists>es. trace (snd (write_chunk_with_retry db chunk i s)) = trace s @ WriteChunk i chunk # es
        \<and> list_all is_io es"
  using retry_attempts_trace
    [of db chunk i "[0..<nat (max_retries s)]" "emit (WriteChunk i chunk) s"]
  by (auto simp: write_chunk_with_retry_def)

lemma write_chunk_calls:
  "chunk_calls (trace (snd (write_chunk_with_retry db chunk i s)))
   = chunk_calls (trace s) @ [(i, chunk)]"
  using write_chunk_trace [of db chunk i s] by (auto simp: io_chunk_calls)

lemma write_chunk_flush_calls:
  "flush_calls (trace (snd (write_chunk_with_retry db chunk i s))) = flush_calls (trace s)"
  using write_chunk_trace [of db chunk i s] by (auto simp: io_flush_calls)

lemma write_chunks_flush_calls:
  "flush_calls (trace (snd (write_chunks db cs s))) = flush_calls (trace s)"
proof (induction cs arbitrary: s)
  case Nil
  show ?case by simp
next
  case (Cons c cs)
  obtain i chunk where c: "c = (i, chunk)"
    by (cases c)
  obtain res s1 where w: "write_chunk_with_retry db chunk i s = (res, s1)"
    by (cases "write_chunk_with_retry db chunk i s")
  have "flush_calls (trace s1) = flush_calls (trace s)"
    using write_chunk_flush_calls [of db chunk i s] w by simp
  then show ?case
    using Cons.IH [of s1] c w by (auto split: sum.splits)
qed

lemma write_batch_flush_calls:
  "flush_calls (trace (snd (write_telemetry_batch db data s))) = flush_calls (trace s)"
  by (auto simp: write_telemetry_batch_def write_chunks_flush_calls split: sum.splits)

lemma flush_batch_flush_calls:
  "flush_calls (trace (snd (flush_batch db s))) = Suc (flush_calls (trace s))"
  using write_batch_flush_calls [of db "pending_batch s" "emit FlushBatch s"]
  by (auto simp: flush_batch_def Let_def split: prod.splits sum.splits)

section \<open>Adding records\<close>

lemma stamp_and_append_simps [simp]:
  "pending_batch (stamp_and_append td now s) = pending_batch s @ [td]"
  "trace (stamp_and_append td now s) = trace s"
  "remote (stamp_and_append td now s) = remote s"
  "batch_size (stamp_and_append td now s) = batch_size s"
  "max_retries (stamp_and_append td now s) = max_retries s"
  "next_ref (stamp_and_append td now s) = next_ref s"
  by (simp_all add: stamp_and_append_def Let_def)

lemma stamp_and_append_has_created_at:
  "has_key ''created_at'' (heap (stamp_and_append td now s) td)"
  by (simp add: stamp_and_append_def Let_def has_key_def update_conv')

lemma add_below:
  assumes "int (length (pending_batch s)) + 1 < batch_size s"
  shows "add_telemetry_data db td now s = (True, stamp_and_append td now s)"
  using assms by (simp add: add_telemetry_data_def Let_def)

lemma add_at:
  assumes "batch_size s \<le> int (length (pending_batch s)) + 1"
  shows "add_telemetry_data db td now s = flush_batch db (stamp_and_append td now s)"
  using assms by (simp add: add_telemetry_data_def Let_def)

lemma add_all_below:
  "int (length (pending_batch s)) + int (length recs) < batch_size s \<Longrightarrow>
   fst (add_all db recs s) = replicate (length recs) True
   \<and> pending_batch (snd (add_all db recs s)) = pending_batch s @ map fst recs
   \<and> trace (snd (add_all db recs s)) = trace s
   \<and> remote (snd (add_all db recs s)) = remote s
   \<and> batch_size (snd (add_all db recs s)) = batch_size s"
proof (induction recs arbitrary: s)
  case Nil
  show ?case by simp
next
  case (Cons x recs)
  obtain td now where x: "x = (td, now)"
    by (cases x)
  have below: "int (length (pending_batch s)) + 1 < batch_size s"
    using Cons.prems by simp
  let ?s1 = "stamp_and_append td now s"
  have a: "add_telemetry_data db td now s = (True, ?s1)"
    by (rule add_below [OF below])
  have "int (length (pending_batch ?s1)) + int (length recs) < batch_size ?s1"
    using Cons.prems by simp
  from Cons.IH [OF this] show ?case
    using x a by (simp add: case_prod_beta)
qed

lemma add_all_append:
  "add_all db (xs @ ys) s =
     (case add_all db xs s of
        (oks, s1) \<Rightarrow> (case add_all db ys s1 of (oks', s2) \<Rightarrow> (oks @ oks', s2)))"
  by (induction xs arbitrary: s) (auto split: prod.splits)

lemma add_all_exact:
  assumes bs: "0 < batch_size s" and empty: "pending_batch s = []"
    and len: "length recs = nat (batch_size s)"
  shows "flush_calls (trace (snd (add_all db recs s))) = Suc (flush_calls (trace s))"
proof -
  from bs len have "recs \<noteq> []"
    by auto
  then obtain ini x where recs: "recs = ini @ [x]"
    by (metis rev_exhaust)
  obtain td now where x: "x = (td, now)"
    by (cases x)
  have below: "int (length (pending_batch s)) + int (length ini) < batch_size s"
    using bs empty len recs by simp
  let ?s1 = "snd (add_all db ini s)"
  have s1: "pending_batch ?s1 = map fst ini" "trace ?s1 = trace s"
    "batch_size ?s1 = batch_size s"
    using add_all_below [OF below, of db] empty by simp_all
  have "batch_size ?s1 \<le> int (length (pending_batch ?s1)) + 1"
    using s1 len recs by simp
  from add_at [OF this, of db td now] show ?thesis
    using recs x s1 by (simp add: add_all_append case_prod_beta flush_batch_flush_calls)
qed

text \<open>
  Claim C3. \<open>add_telemetry_data\<close> leaves the record with a \<open>created_at\<close> field and
  appends it to the pending batch; when the batch then holds at least \<open>batch_size\<close>
  records the call is the call of \<open>flush_batch\<close> on that state and returns its result,
  otherwise it returns \<open>True\<close> and does nothing else. So, with a batch size of at least
  one and an empty batch to start from, \<open>batch_size\<close> adds call \<open>flush_batch\<close> exactly
  once, and \<open>batch_size - 1\<close> adds never call it: they all return \<open>True\<close>, they leave
  the remote store and the trace alone, and the records are pending in the order added.
\<close>

theorem add_flushes_at_batch_size:
  "has_key ''created_at'' (heap (stamp_and_append td now s) td)
   \<and> pending_batch (stamp_and_append td now s) = pending_batch s @ [td]
   \<and> (batch_size s \<le> int (length (pending_batch s)) + 1 \<longrightarrow>
        add_telemetry_data db td now s = flush_batch db (stamp_and_append td now s))
   \<and> (int (length (pending_batch s)) + 1 < batch_size s \<longrightarrow>
        add_telemetry_data db td now s = (True, stamp_and_append td now s))
   \<and> (0 < batch_size s \<and> pending_batch s = [] \<and> length recs = nat (batch_size s) \<longrightarrow>
        flush_calls (trace (snd (add_all db recs s))) = flush_calls (trace s) + 1)
   \<and> (0 < batch_size s \<and> pending_batch s = [] \<and> length recs = nat (batch_size s) - 1 \<longrightarrow>
        flush_calls (trace (snd (add_all db recs s))) = flush_calls (trace s)
        \<and> fst (add_all db recs s) = replicate (length recs) True
        \<and> pending_batch (snd (add_all db recs s)) = map fst recs
        \<and> trace (snd (add_all db recs s)) = trace s
        \<and> remote (snd (add_all db recs s)) = remote s)"
proof -
  have exact: "flush_calls (trace (snd (add_all db recs s))) = flush_calls (trace s) + 1"
    if "0 < batch_size s" "pending_batch s = []" "length recs = nat (batch_size s)"
    using add_all_exact [OF that] by simp
  have fewer: "flush_calls (trace (snd (add_all db recs s))) = flush_calls (trace s)
        \<and> fst (add_all db recs s) = replicate (length recs) True
        \<and> pending_batch (snd (add_all db recs s)) = map fst recs
        \<and> trace (snd (add_all db recs s)) = trace s
        \<and> remote (snd (add_all db recs s)) = remote s"
    if "0 < batch_size s" "pending_batch s = []" "length recs = nat (batch_size s) - 1"
  proof -
    have "int (length (pending_batch s)) + int (length recs) < batch_size s"
      using that by simp
    from add_all_below [OF this, of db] show ?thesis
      using that by simp
  qed
  show ?thesis
    using exact fewer add_below [of s db td now] add_at [of s db td now]
    by (simp add: stamp_and_append_has_created_at)
qed

theorem add_flushes_at_batch_size_witness:
  "flush_calls (trace (snd (add_all failing_db [(0, ''t0''), (1, ''t1''), (2, ''t2'')]
      (init_state 3 2 ())))) = 1
   \<and> flush_calls (trace (snd (add_all failing_db [(0, ''t0''), (1, ''t1'')]
      (init_state 3 2 ())))) = 0
   \<and> fst (add_all failing_db [(0, ''t0''), (1, ''t1'')] (init_state 3 2 ())) = [True, True]
   \<and> pending_batch (snd (add_all failing_db [(0, ''t0''), (1, ''t1'')] (init_state 3 2 ())))
       = [0, 1]
   \<and> add_telemetry_data failing_db 0 ''t0'' (init_state 1 2 ())
       = flush_batch failing_db (stamp_and_append 0 ''t0'' (init_state 1 2 ()))
   \<and> add_telemetry_data failing_db 0 ''t0'' (init_state 3 2 ())
       = (True, stamp_and_append 0 ''t0'' (init_state 3 2 ()))"
proof -
  let ?s = "init_state 3 2 ()"
  let ?three = "[(0, ''t0''), (1, ''t1''), (2, ''t2'')] :: (ref \<times> string) list"
  let ?two = "[(0, ''t0''), (1, ''t1'')] :: (ref \<times> string) list"
  have s: "batch_size ?s = 3" "pending_batch ?s = []" "trace ?s = []"
    by (simp_all add: init_state_def)
  have s': "batch_size (init_state 1 2 ()) = 1" "pending_batch (init_state 1 2 ()) = []"
    by (simp_all add: init_state_def)
  have one: "flush_calls (trace (snd (add_all failing_db ?three ?s))) = 1"
    using add_flushes_at_batch_size [of 0 "''t0''" ?s failing_db ?three]
    by (simp del: add_all.simps add: s)
  have none: "flush_calls (trace (snd (add_all failing_db ?two ?s))) = 0
      \<and> fst (add_all failing_db ?two ?s) = [True, True]
      \<and> pending_batch (snd (add_all failing_db ?two ?s)) = [0, 1]
      \<and> add_telemetry_data failing_db 0 ''t0'' ?s = (True, stamp_and_append 0 ''t0'' ?s)"
    using add_flushes_at_batch_size [of 0 "''t0''" ?s failing_db ?two]
    by (simp del: add_all.simps add: s)
  have flushed: "add_telemetry_data failing_db 0 ''t0'' (init_state 1 2 ())
      = flush_batch failing_db (stamp_and_append 0 ''t0'' (init_state 1 2 ()))"
    using add_flushes_at_batch_size [of 0 "''t0''" "init_state 1 2 ()" failing_db "[]"]
    by (simp del: add_all.simps add: s')
  show ?thesis
    using one none flushed by (simp del: add_all.simps)
qed

section \<open>Chunks\<close>









lemma chunks_of_Nil:
  "chunks_of bs [] = Inr chunks \<Longrightarrow> chunks = []"
  by (auto simp: chunks_of_def py_range_def split: if_splits)

section \<open>Writing a batch\<close>

lemma write_chunks_append:
  "write_chunks db (pre @ post) s =
     (case write_chunks db pre s of
        (Inr True, s1) \<Rightarrow> write_chunks db post s1
      | (res, s1) \<Rightarrow> (res, s1))"
proof (induction pre arbitrary: s)
  case Nil
  show ?case by simp
next
  case (Cons c pre)
  obtain i chunk where c: "c = (i, chunk)"
    by (cases c)
  show ?case
    using Cons.IH c by (auto split: prod.splits sum.splits bool.splits)
qed

lemma write_chunks_calls_ok:
  "fst (write_chunks db cs s) = Inr True \<Longrightarrow>
   chunk_calls (trace (snd (write_chunks db cs s))) = chunk_calls (trace s) @ cs"
proof (induction cs arbitrary: s)
  case Nil
  show ?case by simp
next
  case (Cons c cs)
  obtain i chunk where c: "c = (i, chunk)"
    by (cases c)
  obtain res s1 where w: "write_chunk_with_retry db chunk i s = (res, s1)"
    by (cases "write_chunk_with_retry db chunk i s")
  have calls: "chunk_calls (trace s1) = chunk_calls (trace s) @ [(i, chunk)]"
    using write_chunk_calls [of db chunk i s] w by simp
  from Cons.prems c w have res: "res = Inr True" and rest: "fst (write_chunks db cs s1) = Inr True"
    by (auto split: sum.splits if_splits)
  show ?case
    using Cons.IH [OF rest] calls c w res by simp
qed








text \<open>
  Claim C5. \<open>_write_telemetry_batch\<close> gives the chunks to \<open>_write_chunk_with_retry\<close> one
  after the other. When the chunks before chunk \<open>k\<close> are written and the write of chunk
  \<open>k\<close> returns \<open>False\<close>, \<open>_write_telemetry_batch\<close> returns \<open>False\<close> in the state that
  write left: no later chunk is given to a call, and each earlier chunk was given to one
  call only, so what the earlier writes did to the remote store stays as it is.
\<close>

theorem first_failed_chunk_aborts:
  assumes "chunks_of (batch_size s) data = Inr chunks"
    and "k < length chunks"
    and "fst (write_chunks db (enumerate 0 (take k chunks)) s) = Inr True"
    and "fst (write_chunk_with_retry db (chunks ! k) k
           (snd (write_chunks db (enumerate 0 (take k chunks)) s))) = Inr False"
  shows "write_telemetry_batch db data s =
           (Inr False, snd (write_chunk_with_retry db (chunks ! k) k
              (snd (write_chunks db (enumerate 0 (take k chunks)) s))))
       \<and> chunk_calls (trace (snd (write_telemetry_batch db data s)))
           = chunk_calls (trace s) @ enumerate 0 (take (Suc k) chunks)"
proof -
  let ?pre = "enumerate 0 (take k chunks)"
  let ?post = "enumerate (Suc k) (drop (Suc k) chunks)"
  obtain s1 where pre: "write_chunks db ?pre s = (Inr True, s1)"
    using assms(3) by (cases "write_chunks db ?pre s") auto
  obtain s2 where failing: "write_chunk_with_retry db (chunks ! k) k s1 = (Inr False, s2)"
    using assms(4) pre by (cases "write_chunk_with_retry db (chunks ! k) k s1") auto
  have "data \<noteq> []"
    using assms(1,2) chunks_of_Nil by fastforce
  then have wb: "write_telemetry_batch db data s = write_chunks db (enumerate 0 chunks) s"
    using assms(1) by (simp add: write_telemetry_batch_def)
  have "chunks = take k chunks @ chunks ! k # drop (Suc k) chunks"
    using assms(2) by (rule id_take_nth_drop)
  then have "enumerate 0 chunks = enumerate 0 (take k chunks @ chunks ! k # drop (Suc k) chunks)"
    by simp
  also have "\<dots> = ?pre @ (k, chunks ! k) # ?post"
    using assms(2) by (simp add: enumerate_append_eq min_absorb2)
  finally have split: "enumerate 0 chunks = ?pre @ (k, chunks ! k) # ?post" .
  have "write_chunks db (?pre @ (k, chunks ! k) # ?post) s = (Inr False, s2)"
    by (simp add: write_chunks_append pre failing)
  then have result: "write_telemetry_batch db data s = (Inr False, s2)"
    by (simp only: wb split)
  have "enumerate 0 (take (Suc k) chunks) = ?pre @ [(k, chunks ! k)]"
    using assms(2) by (simp add: take_Suc_conv_app_nth enumerate_append_eq min_absorb2)
  moreover have "chunk_calls (trace s1) = chunk_calls (trace s) @ ?pre"
    using write_chunks_calls_ok [OF assms(3)] by (simp add: pre)
  moreover have "chunk_calls (trace s2) = chunk_calls (trace s1) @ [(k, chunks ! k)]"
    using write_chunk_calls [of db "chunks ! k" k s1] by (simp add: failing)
  ultimately have "chunk_calls (trace s2)
      = chunk_calls (trace s) @ enumerate 0 (take (Suc k) chunks)"
    by simp
  then show ?thesis
    by (simp add: result pre failing)
qed

theorem first_failed_chunk_aborts_witness:
  "fst (write_telemetry_batch flaky_db [0, 1, 2] three_pending) = Inr False
   \<and> chunk_calls (trace (snd (write_telemetry_batch flaky_db [0, 1, 2] three_pending)))
       = [(0, [0]), (1, [1])]
   \<and> remote (snd (write_telemetry_batch flaky_db [0, 1, 2] three_pending))
       = (0, [alt_record 1])"
proof -
  let ?chunks = "[[0], [1], [2]] :: ref list list"
  have s: "batch_size three_pending = 1" "trace three_pending = []"
    by (simp_all add: three_pending_def pending_state_def)
  have cut: "chunks_of (batch_size three_pending) [0, 1, 2 :: ref] = Inr ?chunks"
    unfolding s by code_simp
  have k: "(1 :: nat) < length ?chunks"
    by simp
  have before: "fst (write_chunks flaky_db (enumerate 0 (take 1 ?chunks)) three_pending) = Inr True"
    by code_simp
  have failing: "fst (write_chunk_with_retry flaky_db (?chunks ! 1) 1
      (snd (write_chunks flaky_db (enumerate 0 (take 1 ?chunks)) three_pending))) = Inr False"
    by code_simp
  have stays: "remote (snd (write_telemetry_batch flaky_db [0, 1, 2] three_pending))
      = (0, [alt_record 1])"
    by code_simp
  have enum: "enumerate 0 (take (Suc 1) ?chunks) = [(0, [0]), (1, [1])]"
    by simp
  note aborts = first_failed_chunk_aborts [OF cut k before failing]
  have returned: "fst (write_telemetry_batch flaky_db [0, 1, 2] three_pending) = Inr False"
    using aborts [THEN conjunct1] by (simp only: fst_conv)
  have calls: "chunk_calls (trace (snd (write_telemetry_batch flaky_db [0, 1, 2] three_pending)))
      = [(0, [0]), (1, [1])]"
    using aborts [THEN conjunct2] by (simp only: s chunk_calls.simps append_Nil enum)
  show ?thesis
    using returned calls stays by (simp only: simp_thms)
qed

section \<open>Retrying a chunk\<close>

lemma insert_count_append [simp]:
  "insert_count (es @ fs) = insert_count es + insert_count fs"
  by (induction es rule: insert_count.induct) auto

lemma sleeps_append [simp]: "sleeps (es @ fs) = sleeps es @ sleeps fs"
  by (induction es rule: sleeps.induct) auto

text \<open>
  With a store that never confirms, every attempt of the loop is made and the loop ends
  with \<open>False\<close>, as long as no attempt has an index of 1024 or more.
\<close>

lemma retry_attempts_exhausted:
  assumes "never_confirms db" and "\<forall>a \<in> set as. a < 1024"
  shows "fst (retry_attempts db chunk i as s) = Inr False
       \<and> insert_count (trace (snd (retry_attempts db chunk i as s)))
           = insert_count (trace s) + length as"
  using assms(2)
proof (induction as arbitrary: s)
  case Nil
  show ?case by simp
next
  case (Cons a as)
  obtain outcome r' where ins: "table_insert db (remote s) (map (heap s) chunk) = (outcome, r')"
    by (cases "table_insert db (remote s) (map (heap s) chunk)")
  have "case fst (table_insert db (remote s) (map (heap s) chunk)) of
      Inr data \<Rightarrow> data = [] | Inl e \<Rightarrow> True"
    using assms(1) unfolding never_confirms_def by blast
  then have no_data: "data = []" if "outcome = Inr data" for data
    using ins that by simp
  have small: "a < 1024" and rest: "\<forall>a \<in> set as. a < 1024"
    using Cons.prems by simp_all
  show ?case
    using ins no_data small Cons.IH [OF rest] by (auto simp: Let_def split: sum.splits)
qed

lemma write_chunk_exhausted:
  assumes "never_confirms db" and "max_retries s \<le> 1024"
  shows "fst (write_chunk_with_retry db chunk i s) = Inr False
       \<and> insert_count (trace (snd (write_chunk_with_retry db chunk i s)))
           = insert_count (trace s) + nat (max_retries s)"
proof -
  have "\<forall>a \<in> set [0..<nat (max_retries s)]. a < 1024"
    using assms(2) by auto
  from retry_attempts_exhausted [OF assms(1) this, of chunk i "emit (WriteChunk i chunk) s"]
  show ?thesis
    by (simp add: write_chunk_with_retry_def)
qed

text \<open>
  With a store that always raises, the sleeps of the attempts \<open>k, ..., n - 1\<close> of
  \<open>n = max_retries\<close> are \<open>2 ^ a * 0.5\<close> for every attempt \<open>a\<close> but the last.
\<close>

lemma retry_attempts_backoff:
  assumes "always_raises db" and "max_retries s = int n" and "n \<le> 1024"
  shows "sleeps (trace (snd (retry_attempts db chunk i [k..<n] s)))
         = sleeps (trace s) @ map (\<lambda>a. 2 ^ a * 0.5) [k..<n - 1]"
  using assms(2)
proof (induction "n - k" arbitrary: k s)
  case 0
  then show ?case by simp
next
  case (Suc d)
  then have k: "k < n" and list: "[k..<n] = k # [Suc k..<n]"
    by (auto simp: upt_rec)
  obtain outcome r' where ins: "table_insert db (remote s) (map (heap s) chunk) = (outcome, r')"
    by (cases "table_insert db (remote s) (map (heap s) chunk)")
  have "\<exists>e. fst (table_insert db (remote s) (map (heap s) chunk)) = Inl e"
    using assms(1) unfolding always_raises_def by blast
  then obtain e where e: "outcome = Inl e"
    using ins by auto
  let ?s1 = "emit (Insert (map (heap s) chunk)) (s\<lparr>remote := r'\<rparr>)"
  have d: "d = n - Suc k"
    using Suc.hyps(2) by simp
  have small: "\<not> 1024 \<le> k"
    using k assms(3) by simp
  show ?case
  proof (cases "Suc k < n")
    case True
    have mr: "max_retries (emit (Sleep (2 ^ k * 0.5)) ?s1) = int n"
      using Suc.prems by simp
    have "[k..<n - 1] = k # [Suc k..<n - 1]"
      using True by (simp add: upt_rec)
    then show ?thesis
      using Suc.hyps(1) [OF d mr] ins e small True Suc.prems list by (simp add: Let_def)
  next
    case False
    then have last: "n = Suc k"
      using k by simp
    then show ?thesis
      using ins e small Suc.prems by (simp add: Let_def)
  qed
qed

lemma write_chunk_backoff:
  assumes "always_raises db" and "0 \<le> max_retries s" and "max_retries s \<le> 1024"
  shows "sleeps (trace (snd (write_chunk_with_retry db chunk i s)))
         = sleeps (trace s) @ map (\<lambda>a. 2 ^ a * 0.5) [0..<nat (max_retries s) - 1]"
proof -
  have "max_retries (emit (WriteChunk i chunk) s) = int (nat (max_retries s))"
    using assms(2) by simp
  from retry_attempts_backoff [OF assms(1) this, of chunk i 0] show ?thesis
    using assms(3) by (simp add: write_chunk_with_retry_def)
qed

text \<open>
  Claim C1, at a store that answers every insert with a response that holds no data, with
  \<open>max_retries = 3\<close>: the insert is attempted three times and the call returns
  \<open>False\<close>, but the three inserts follow each other with no sleep between them. At a
  store that raises on every insert the same call sleeps 0.5 and 1 second between the
  attempts.
\<close>

theorem empty_response_retried_without_sleep:
  "fst (write_chunk_with_retry silent_db [0] 0 one_pending) = Inr False
   \<and> trace (snd (write_chunk_with_retry silent_db [0] 0 one_pending))
       = [WriteChunk 0 [0], Insert [alt_record 1], Insert [alt_record 1], Insert [alt_record 1]]
   \<and> sleeps (trace (snd (write_chunk_with_retry silent_db [0] 0 one_pending))) = []
   \<and> sleeps (trace (snd (write_chunk_with_retry failing_db [0] 0 one_pending))) = [0.5, 1]"
  by code_simp

section \<open>Parsing\<close>

lemma convert_value_no_point:
  "CHR ''.'' \<notin> set v \<Longrightarrow>
   convert_value py v =
     (case int_of_str py v of
        Inr n \<Rightarrow> Inr (PyInt n)
      | Inl (ValueError m) \<Rightarrow> Inr (PyStr v)
      | Inl e \<Rightarrow> Inl e)"
  by (simp add: convert_value_def split: sum.splits pyexc.splits)

lemma convert_value_point:
  "CHR ''.'' \<in> set v \<Longrightarrow>
   convert_value py v =
     (case float_of_str py v of
        Inr x \<Rightarrow> Inr (PyFloat x)
      | Inl (ValueError m) \<Rightarrow> Inr (PyStr v)
      | Inl e \<Rightarrow> Inl e)"
  by (simp add: convert_value_def split: sum.splits pyexc.splits)

lemma parse_pair_colon:
  "CHR '':'' \<in> set pair \<Longrightarrow>
   parse_pair py pair d =
     (case convert_value py (py_strip (tl (dropWhile (\<lambda>c. c \<noteq> CHR '':'') pair))) of
        Inl e \<Rightarrow> Inl e
      | Inr v \<Rightarrow>
          Inr (AList.update (py_lower (py_strip (takeWhile (\<lambda>c. c \<noteq> CHR '':'') pair))) v d))"
  by (simp add: parse_pair_def py_split1_def)

text \<open>
  Claim C7. For a value without a point the result of \<open>_convert_value\<close> does not depend
  on what \<open>float\<close> does, and for a value with a point it does not depend on what \<open>int\<close>
  does: only the one conversion is attempted. What the conversion returns is the value of
  the field, and when it raises \<open>ValueError\<close> the string itself is the value. The string a
  pair hands to \<open>_convert_value\<close> is the text after the first colon, stripped. With
  Python's conversions \<open>1.2.3\<close> stays the string \<open>1.2.3\<close>.
\<close>

theorem convert_value_int_or_float_only:
  "(CHR ''.'' \<notin> set v \<longrightarrow> convert_value (py\<lparr>float_of_str := f\<rparr>) v = convert_value py v)
   \<and> (CHR ''.'' \<in> set v \<longrightarrow> convert_value (py\<lparr>int_of_str := g\<rparr>) v = convert_value py v)
   \<and> (CHR ''.'' \<notin> set v \<and> int_of_str py v = Inr n \<longrightarrow> convert_value py v = Inr (PyInt n))
   \<and> (CHR ''.'' \<in> set v \<and> float_of_str py v = Inr x \<longrightarrow> convert_value py v = Inr (PyFloat x))
   \<and> (CHR ''.'' \<notin> set v \<and> int_of_str py v = Inl (ValueError m) \<longrightarrow>
        convert_value py v = Inr (PyStr v))
   \<and> (CHR ''.'' \<in> set v \<and> float_of_str py v = Inl (ValueError m) \<longrightarrow>
        convert_value py v = Inr (PyStr v))
   \<and> (CHR '':'' \<in> set pair \<longrightarrow>
        parse_pair py pair d =
          (case convert_value py (py_strip (tl (dropWhile (\<lambda>c. c \<noteq> CHR '':'') pair))) of
             Inl e \<Rightarrow> Inl e
           | Inr v' \<Rightarrow>
               Inr (AList.update
                     (py_lower (py_strip (takeWhile (\<lambda>c. c \<noteq> CHR '':'') pair))) v' d)))
   \<and> convert_value python ''1.2.3'' = Inr (PyStr ''1.2.3'')"
proof -
  have literal: "convert_value python ''1.2.3'' = Inr (PyStr ''1.2.3'')"
    by code_simp
  show ?thesis
    by (simp add: convert_value_no_point convert_value_point parse_pair_colon literal)
qed

theorem convert_value_int_or_float_only_witness:
  "convert_value python ''8'' = Inr (PyInt 8)
   \<and> convert_value python ''15.2'' = Inr (PyFloat (Float_of ''15.2''))
   \<and> convert_value python ''8a'' = Inr (PyStr ''8a'')
   \<and> convert_value python ''1.2.3'' = Inr (PyStr ''1.2.3'')
   \<and> convert_value (python\<lparr>float_of_str := float_of_str raising\<rparr>) ''8'' = Inr (PyInt 8)
   \<and> convert_value (python\<lparr>int_of_str := int_of_str raising\<rparr>) ''15.2''
       = Inr (PyFloat (Float_of ''15.2''))
   \<and> parse_pair python ''v: 1.2.3 '' [] = Inr [(''v'', PyStr ''1.2.3'')]"
proof -
  have no_point: "CHR ''.'' \<notin> set ''8''" "CHR ''.'' \<notin> set ''8a''"
    by simp_all
  have point: "CHR ''.'' \<in> set ''15.2''" "CHR ''.'' \<in> set ''1.2.3''"
    by simp_all
  have colon: "CHR '':'' \<in> set ''v: 1.2.3 ''"
    by simp
  have int_ok: "int_of_str python ''8'' = Inr 8"
    by code_simp
  have int_bad: "int_of_str python ''8a'' = Inl (ValueError ''invalid literal for int() with base 10'')"
    by code_simp
  have float_ok: "float_of_str python ''15.2'' = Inr (Float_of ''15.2'')"
    by code_simp
  have float_bad: "float_of_str python ''1.2.3''
      = Inl (ValueError ''could not convert string to float'')"
    by code_simp
  have stripped: "py_strip (tl (dropWhile (\<lambda>c. c \<noteq> CHR '':'') ''v: 1.2.3 '')) = ''1.2.3''"
    "py_lower (py_strip (takeWhile (\<lambda>c. c \<noteq> CHR '':'') ''v: 1.2.3 '')) = ''v''"
    by code_simp+
  note c7 = convert_value_int_or_float_only
  have a: "convert_value python ''8'' = Inr (PyInt 8)"
    using c7 [where v = "''8''" and py = python and n = 8] no_point int_ok by blast
  have b: "convert_value python ''15.2'' = Inr (PyFloat (Float_of ''15.2''))"
    using c7 [where v = "''15.2''" and py = python and x = "Float_of ''15.2''"] point float_ok
    by blast
  have c: "convert_value python ''8a'' = Inr (PyStr ''8a'')"
    using c7 [where v = "''8a''" and py = python
        and m = "''invalid literal for int() with base 10''"]
      no_point int_bad by blast
  have d: "convert_value python ''1.2.3'' = Inr (PyStr ''1.2.3'')"
    using c7 [where v = "''1.2.3''" and py = python
        and m = "''could not convert string to float''"]
      point float_bad by blast
  have e: "convert_value (python\<lparr>float_of_str := float_of_str raising\<rparr>) ''8'' = Inr (PyInt 8)"
    using c7 [where v = "''8''" and py = python and f = "float_of_str raising"] no_point a
    by simp
  have f: "convert_value (python\<lparr>int_of_str := int_of_str raising\<rparr>) ''15.2''
      = Inr (PyFloat (Float_of ''15.2''))"
    using c7 [where v = "''15.2''" and py = python and g = "int_of_str raising"] point b
    by simp
  have pair: "parse_pair python ''v: 1.2.3 '' [] =
      (case convert_value python (py_strip (tl (dropWhile (\<lambda>c. c \<noteq> CHR '':'') ''v: 1.2.3 ''))) of
         Inl e \<Rightarrow> Inl e
       | Inr v' \<Rightarrow>
           Inr (AList.update
                 (py_lower (py_strip (takeWhile (\<lambda>c. c \<noteq> CHR '':'') ''v: 1.2.3 ''))) v' []))"
    using c7 [where py = python and pair = "''v: 1.2.3 ''" and d = "[]"] colon by blast
  have g: "parse_pair python ''v: 1.2.3 '' [] = Inr [(''v'', PyStr ''1.2.3'')]"
    unfolding pair stripped d by simp
  show ?thesis
    using a b c d e f g by simp
qed

lemma map_of_metadata:
  "map_of (AList.update ''data_source'' a
      (AList.update ''parser_version'' b (AList.update ''raw_data'' c d))) ''raw_data'' = Some c"
  "map_of (AList.update ''data_source'' a
      (AList.update ''parser_version'' b (AList.update ''raw_data'' c d))) ''parser_version'' = Some b"
  "map_of (AList.update ''data_source'' a
      (AList.update ''parser_version'' b (AList.update ''raw_data'' c d))) ''data_source'' = Some a"
  by (simp_all add: update_conv')

text \<open>
  Claim C8. \<open>parse_telemetry_line\<close> returns a dict for every input and every behaviour of
  the conversions: an exception inside the \<open>try\<close> block is caught. The dict always maps
  \<open>raw_data\<close> to the input, \<open>parser_version\<close> to \<open>1.0\<close> and \<open>data_source\<close> to
  \<open>flask_api\<close>; when the block raised, the dict is these three fields and
  \<open>parse_error\<close> with the text of the exception, and nothing else; when it did not, the
  dict is the one the block built.
\<close>

theorem parse_never_raises_and_has_metadata:
  "map_of (parse_telemetry_line py raw_data) ''raw_data'' = Some (PyStr raw_data)
   \<and> map_of (parse_telemetry_line py raw_data) ''parser_version'' = Some (PyStr ''1.0'')
   \<and> map_of (parse_telemetry_line py raw_data) ''data_source'' = Some (PyStr ''flask_api'')
   \<and> (parse_body py raw_data = Inl e \<longrightarrow>
        parse_telemetry_line py raw_data =
          [(''raw_data'', PyStr raw_data), (''parser_version'', PyStr ''1.0''),
           (''data_source'', PyStr ''flask_api''), (''parse_error'', PyStr (str_exc e))])
   \<and> (parse_body py raw_data = Inr parsed_data \<longrightarrow>
        parse_telemetry_line py raw_data = parsed_data)"
  by (auto simp: parse_telemetry_line_def parse_body_def map_of_metadata split: sum.splits)

theorem parse_never_raises_and_has_metadata_witness:
  "parse_telemetry_line raising ''alt:150'' =
     [(''raw_data'', PyStr ''alt:150''), (''parser_version'', PyStr ''1.0''),
      (''data_source'', PyStr ''flask_api''), (''parse_error'', PyStr ''out of memory'')]
   \<and> parse_telemetry_line python ''alt:150'' =
     [(''alt'', PyInt 150), (''raw_data'', PyStr ''alt:150''),
      (''parser_version'', PyStr ''1.0''), (''data_source'', PyStr ''flask_api'')]
   \<and> map_of (parse_telemetry_line python ''alt:150'') ''raw_data'' = Some (PyStr ''alt:150'')"
proof -
  have raised: "parse_body raising ''alt:150'' = Inl (Exception ''out of memory'')"
    by code_simp
  have built: "parse_body python ''alt:150'' =
      Inr [(''alt'', PyInt 150), (''raw_data'', PyStr ''alt:150''),
           (''parser_version'', PyStr ''1.0''), (''data_source'', PyStr ''flask_api'')]"
    by code_simp
  show ?thesis
    using raised built
      parse_never_raises_and_has_metadata [where py = raising and raw_data = "''alt:150''"
        and e = "Exception ''out of memory''"]
      parse_never_raises_and_has_metadata [where py = python and raw_data = "''alt:150''"
        and parsed_data = "[(''alt'', PyInt 150), (''raw_data'', PyStr ''alt:150''),
          (''parser_version'', PyStr ''1.0''), (''data_source'', PyStr ''flask_api'')]"]
    by simp
qed

section \<open>The Query route\<close>

lemma selects_append [simp]: "selects (es @ fs) = selects es @ selects fs"
  by (induction es rule: selects.induct) auto

text \<open>
  Claim C9, as the claim states it, fails. With \<open>limit=-1\<close> the route sends the range
  \<open>0 .. -2\<close> to the remote store and answers 200: the sign of a parameter is not
  checked. With \<open>limit=abc\<close> the route makes no remote call and answers with the status
  500 of its handler, not with a client error.
\<close>

theorem query_accepts_negative_limit:
  "fst (query_telemetry python accepting_db \<lparr>body = [], args = [(''limit'', ''-1'')]\<rparr> ''t''
      (init_state 500 3 [])) = 200
   \<and> selects (trace (snd (snd (query_telemetry python accepting_db
        \<lparr>body = [], args = [(''limit'', ''-1'')]\<rparr> ''t'' (init_state 500 3 [])))))
       = [\<lparr>q_columns = ''*'', q_order = Some (''created_at'', True), q_limit = None,
           q_range = Some (0, - 2)\<rparr>]
   \<and> fst (query_telemetry python accepting_db \<lparr>body = [], args = [(''limit'', ''abc'')]\<rparr> ''t''
      (init_state 500 3 [])) = 500
   \<and> trace (snd (snd (query_telemetry python accepting_db
        \<lparr>body = [], args = [(''limit'', ''abc'')]\<rparr> ''t'' (init_state 500 3 [])))) = []"
  by code_simp

text \<open>
  Claim C9, amended. The Query route converts \<open>limit\<close> and \<open>offset\<close> with \<open>int()\<close>
  before it builds the remote query. A value that \<open>int()\<close> rejects fails the operation at
  once: the state is left as it was (no remote call, no retry) and the route's handler
  answers with status 500 and the text of the exception. Two values that \<open>int()\<close>
  accepts, negative ones included, are passed on: the route makes exactly one remote
  query, for the rows \<open>offset .. offset + limit - 1\<close> in the order asked for.
\<close>

theorem query_converts_then_delegates:
  "(int_arg py (args req) ''limit'' 100 = Inl e \<longrightarrow>
      query_telemetry py db req timestamp s =
        (500, Failure (''Failed to query telemetry: '' @ str_exc e) (Some timestamp), s))
   \<and> (int_arg py (args req) ''limit'' 100 = Inr limit
        \<and> int_arg py (args req) ''offset'' 0 = Inl e \<longrightarrow>
      query_telemetry py db req timestamp s =
        (500, Failure (''Failed to query telemetry: '' @ str_exc e) (Some timestamp), s))
   \<and> (int_arg py (args req) ''limit'' 100 = Inr limit
        \<and> int_arg py (args req) ''offset'' 0 = Inr offset \<longrightarrow>
      trace (snd (snd (query_telemetry py db req timestamp s)))
        = trace s @ [Select \<lparr>q_columns = ''*'',
             q_order = Some (args_get (args req) ''order_by'' ''created_at'',
                             py_lower (args_get (args req) ''desc'' ''true'') = ''true''),
             q_limit = None, q_range = Some (offset, offset + limit - 1)\<rparr>]
      \<and> remote (snd (snd (query_telemetry py db req timestamp s)))
        = snd (table_select db (remote s) \<lparr>q_columns = ''*'',
             q_order = Some (args_get (args req) ''order_by'' ''created_at'',
                             py_lower (args_get (args req) ''desc'' ''true'') = ''true''),
             q_limit = None, q_range = Some (offset, offset + limit - 1)\<rparr>))"
  by (auto simp: query_telemetry_def query_failed_def Let_def split: prod.splits sum.splits)

theorem query_converts_then_delegates_witness:
  "query_telemetry python accepting_db \<lparr>body = [], args = [(''limit'', ''abc'')]\<rparr> ''t''
      (init_state 500 3 [])
     = (500, Failure ''Failed to query telemetry: invalid literal for int() with base 10''
               (Some ''t''), init_state 500 3 [])
   \<and> query_telemetry python accepting_db
        \<lparr>body = [], args = [(''limit'', ''5''), (''offset'', ''1.5'')]\<rparr> ''t'' (init_state 500 3 [])
     = (500, Failure ''Failed to query telemetry: invalid literal for int() with base 10''
               (Some ''t''), init_state 500 3 [])
   \<and> trace (snd (snd (query_telemetry python accepting_db
        \<lparr>body = [], args = [(''limit'', ''-1''), (''desc'', ''false'')]\<rparr> ''t''
        (init_state 500 3 []))))
     = [Select \<lparr>q_columns = ''*'', q_order = Some (''created_at'', False), q_limit = None,
                q_range = Some (0, - 2)\<rparr>]"
proof -
  let ?bad = "\<lparr>body = [], args = [(''limit'', ''abc'')]\<rparr>"
  let ?bad_offset = "\<lparr>body = [], args = [(''limit'', ''5''), (''offset'', ''1.5'')]\<rparr>"
  let ?negative = "\<lparr>body = [], args = [(''limit'', ''-1''), (''desc'', ''false'')]\<rparr>"
  let ?e = "ValueError ''invalid literal for int() with base 10''"
  have bad: "int_arg python (args ?bad) ''limit'' 100 = Inl ?e"
    by code_simp
  have bad_offset: "int_arg python (args ?bad_offset) ''limit'' 100 = Inr 5"
    "int_arg python (args ?bad_offset) ''offset'' 0 = Inl ?e"
    by code_simp+
  have negative: "int_arg python (args ?negative) ''limit'' 100 = Inr (- 1)"
    "int_arg python (args ?negative) ''offset'' 0 = Inr 0"
    by code_simp+
  have order: "args_get (args ?negative) ''order_by'' ''created_at'' = ''created_at''"
    "(py_lower (args_get (args ?negative) ''desc'' ''true'') = ''true'') = False"
    by code_simp+
  have empty: "trace (init_state 500 3 ([] :: pydict list)) = []"
    by (simp add: init_state_def)
  note c9 = query_converts_then_delegates
  have a: "query_telemetry python accepting_db ?bad ''t'' (init_state 500 3 [])
      = (500, Failure (''Failed to query telemetry: '' @ str_exc ?e) (Some ''t''),
         init_state 500 3 [])"
    using c9 [where py = python and req = ?bad and e = ?e] bad by blast
  have b: "query_telemetry python accepting_db ?bad_offset ''t'' (init_state 500 3 [])
      = (500, Failure (''Failed to query telemetry: '' @ str_exc ?e) (Some ''t''),
         init_state 500 3 [])"
    using c9 [where py = python and req = ?bad_offset and e = ?e and limit = 5] bad_offset
    by blast
  have c: "trace (snd (snd (query_telemetry python accepting_db ?negative ''t''
        (init_state 500 3 []))))
      = trace (init_state 500 3 ([] :: pydict list)) @ [Select \<lparr>q_columns = ''*'',
           q_order = Some (args_get (args ?negative) ''order_by'' ''created_at'',
                           py_lower (args_get (args ?negative) ''desc'' ''true'') = ''true''),
           q_limit = None, q_range = Some (0, 0 + (- 1) - 1)\<rparr>]"
    using c9 [where py = python and req = ?negative and limit = "- 1" and offset = 0] negative
    by blast
  show ?thesis
    using a b c unfolding order empty by simp
qed

section \<open>The record a caller hands to \<open>add_telemetry_data\<close>\<close>









end
